theory Spec2Isabelle
  imports
    Main
    "HOL-Library.AList"
    "HOL-Library.Char_ord"
    "HOL-Library.List_Lexorder"
    "HOL-Library.Word"
begin

unbundle bit_operations_syntax

section \<open>Python values, exceptions and text rendering\<close>

text \<open>
  The agents exchange dynamically typed values (\<^verbatim>\<open>Any\<close>): tool arguments, message
  payloads and the fields of \<^verbatim>\<open>AgentState\<close>. The universe below covers the JSON-like
  values, the members of the three \<^verbatim>\<open>str\<close>-mixin enums of \<^verbatim>\<open>base_agent.py\<close> and, as
  \<open>PyObject\<close>, an instance of any other class (a set, a datetime, a user object), given
  by the name of its class and the text its \<^verbatim>\<open>__repr__\<close> returns. \<open>PyEnum c n\<close> is the
  member \<open>n\<close> of the enum class \<open>c\<close>; in the three enums the name of a member is its
  value. Floats are left out.
  A \<open>string\<close> is a Python \<^verbatim>\<open>str\<close> of code points below 256, one \<open>char\<close> each.
\<close>

datatype pyval =
    PyNone
  | PyBool bool
  | PyInt int
  | PyStr string
  | PyEnum string string
  | PyList "pyval list"
  | PyTuple "pyval list"
  | PyDict "(string \<times> pyval) list"
  | PyObject string string

type_synonym py_dict = "(string \<times> pyval) list"

text \<open>
  A raised exception: an instance of (a subclass of) \<^verbatim>\<open>Exception\<close>, which is what
  \<^verbatim>\<open>except Exception\<close> catches. The interpreter's exit signals (\<^verbatim>\<open>KeyboardInterrupt\<close>,
  \<^verbatim>\<open>SystemExit\<close>) are not errors of any operation and are not modelled.
\<close>

datatype exn =
    OSError string
  | TypeError string
  | ValueError string
  | AttributeError string
  | RuntimeError string

text \<open>\<^verbatim>\<open>type(v).__name__\<close>\<close>

fun type_name :: "pyval \<Rightarrow> string" where
  "type_name PyNone = ''NoneType''"
| "type_name (PyBool b) = ''bool''"
| "type_name (PyInt i) = ''int''"
| "type_name (PyStr s) = ''str''"
| "type_name (PyEnum c n) = c"
| "type_name (PyList xs) = ''list''"
| "type_name (PyTuple xs) = ''tuple''"
| "type_name (PyDict kvs) = ''dict''"
| "type_name (PyObject c r) = c"

subsection \<open>Digits\<close>

text \<open>The digit of a value below the base, as \<^verbatim>\<open>"0123456789abcdef"[d]\<close>.\<close>

definition digit_char :: "nat \<Rightarrow> char" where
  "digit_char d = ''0123456789'' ! d"

definition hex_char :: "nat \<Rightarrow> char" where
  "hex_char d = ''0123456789abcdef'' ! d"

text \<open>\<^verbatim>\<open>'%0wd' % n\<close> for \<open>n < 10 ^ w\<close>: exactly \<open>w\<close> decimal digits.\<close>

fun zero_pad :: "nat \<Rightarrow> nat \<Rightarrow> string" where
  "zero_pad 0 n = []"
| "zero_pad (Suc w) n = zero_pad w (n div 10) @ [digit_char (n mod 10)]"

fun show_nat :: "nat \<Rightarrow> string" where
  "show_nat n = (if n < 10 then [digit_char n] else show_nat (n div 10) @ [digit_char (n mod 10)])"

declare show_nat.simps [simp del]

definition show_int :: "int \<Rightarrow> string" where
  "show_int i = (if i < 0 then CHR ''-'' # show_nat (nat (- i)) else show_nat (nat i))"

text \<open>\<^verbatim>\<open>sep.join(parts)\<close>\<close>

fun join :: "string \<Rightarrow> string list \<Rightarrow> string" where
  "join sep [] = []"
| "join sep [x] = x"
| "join sep (x # y # ys) = x @ sep @ join sep (y # ys)"

subsection \<open>\<^verbatim>\<open>repr\<close> and \<^verbatim>\<open>str\<close>\<close>

text \<open>
  \<^verbatim>\<open>repr\<close> of a \<^verbatim>\<open>str\<close> (CPython's \<^verbatim>\<open>unicode_repr\<close>): single quotes unless the text has a
  single quote and no double quote; the quote and the backslash are escaped, tab, newline
  and carriage return by letter, every other non-printable code point as \<^verbatim>\<open>\xhh\<close>.
\<close>

definition printable :: "char \<Rightarrow> bool" where
  "printable c = (let n = (of_char c :: nat) in
     (32 \<le> n \<and> n < 127) \<or> (160 < n \<and> n \<noteq> 173))"

definition repr_char :: "char \<Rightarrow> char \<Rightarrow> string" where
  "repr_char q c =
     (if c = q \<or> c = CHR 0x5C then [CHR 0x5C, c]
      else if c = CHR 0x09 then [CHR 0x5C, CHR ''t'']
      else if c = CHR 0x0A then [CHR 0x5C, CHR ''n'']
      else if c = CHR 0x0D then [CHR 0x5C, CHR ''r'']
      else if printable c then [c]
      else [CHR 0x5C, CHR ''x'', hex_char (of_char c div 16), hex_char (of_char c mod 16)])"

definition str_repr :: "string \<Rightarrow> string" where
  "str_repr s =
     (let q = (if CHR 0x27 \<in> set s \<and> CHR 0x22 \<notin> set s then CHR 0x22 else CHR 0x27)
      in q # concat (map (repr_char q) s) @ [q])"

fun py_repr :: "pyval \<Rightarrow> string"
  and repr_items :: "pyval list \<Rightarrow> string list"
  and repr_pairs :: "(string \<times> pyval) list \<Rightarrow> string list" where
  "py_repr PyNone = ''None''"
| "py_repr (PyBool b) = (if b then ''True'' else ''False'')"
| "py_repr (PyInt i) = show_int i"
| "py_repr (PyStr s) = str_repr s"
| "py_repr (PyEnum c n) = ''<'' @ c @ ''.'' @ n @ '': '' @ str_repr n @ ''>''"
| "py_repr (PyList xs) = ''['' @ join '', '' (repr_items xs) @ '']''"
| "py_repr (PyTuple xs) =
     ''('' @ join '', '' (repr_items xs) @ (if length xs = 1 then '','' else []) @ '')''"
| "py_repr (PyDict kvs) = ''{'' @ join '', '' (repr_pairs kvs) @ ''}''"
| "py_repr (PyObject c r) = r"
| "repr_items [] = []"
| "repr_items (x # xs) = py_repr x # repr_items xs"
| "repr_pairs [] = []"
| "repr_pairs ((k, v) # kvs) = (str_repr k @ '': '' @ py_repr v) # repr_pairs kvs"

text \<open>\<^verbatim>\<open>str(args)\<close> of the tuple of positional arguments.\<close>

definition py_str_tuple :: "pyval list \<Rightarrow> string" where
  "py_str_tuple args = py_repr (PyTuple args)"

subsection \<open>\<^verbatim>\<open>json.dumps\<close>\<close>

text \<open>
  The default encoder (\<^verbatim>\<open>ensure_ascii=True\<close>, separators \<^verbatim>\<open>', '\<close> and \<^verbatim>\<open>': '\<close>). A string
  keeps the code points from space to tilde, except the double quote and the backslash;
  the rest is escaped. An object of a class the encoder does not know raises
  \<^verbatim>\<open>TypeError\<close>.
\<close>

definition json_char :: "char \<Rightarrow> string" where
  "json_char c =
     (if c = CHR 0x22 then [CHR 0x5C, CHR 0x22]
      else if c = CHR 0x5C then [CHR 0x5C, CHR 0x5C]
      else if c = CHR 0x0A then [CHR 0x5C, CHR ''n'']
      else if c = CHR 0x0D then [CHR 0x5C, CHR ''r'']
      else if c = CHR 0x09 then [CHR 0x5C, CHR ''t'']
      else if c = CHR 0x08 then [CHR 0x5C, CHR ''b'']
      else if c = CHR 0x0C then [CHR 0x5C, CHR ''f'']
      else if 32 \<le> (of_char c :: nat) \<and> (of_char c :: nat) < 127 then [c]
      else [CHR 0x5C, CHR ''u'', CHR ''0'', CHR ''0'',
            hex_char (of_char c div 16), hex_char (of_char c mod 16)])"

definition json_string :: "string \<Rightarrow> string" where
  "json_string s = CHR 0x22 # concat (map json_char s) @ [CHR 0x22]"

fun json_dumps :: "pyval \<Rightarrow> exn + string"
  and json_items :: "pyval list \<Rightarrow> exn + string list"
  and json_pairs :: "(string \<times> pyval) list \<Rightarrow> exn + string list" where
  "json_dumps PyNone = Inr ''null''"
| "json_dumps (PyBool b) = Inr (if b then ''true'' else ''false'')"
| "json_dumps (PyInt i) = Inr (show_int i)"
| "json_dumps (PyStr s) = Inr (json_string s)"
| "json_dumps (PyEnum c n) = Inr (json_string n)"
| "json_dumps (PyList xs) =
     (case json_items xs of Inl e \<Rightarrow> Inl e | Inr ss \<Rightarrow> Inr (''['' @ join '', '' ss @ '']''))"
| "json_dumps (PyTuple xs) =
     (case json_items xs of Inl e \<Rightarrow> Inl e | Inr ss \<Rightarrow> Inr (''['' @ join '', '' ss @ '']''))"
| "json_dumps (PyDict kvs) =
     (case json_pairs kvs of Inl e \<Rightarrow> Inl e | Inr ss \<Rightarrow> Inr (''{'' @ join '', '' ss @ ''}''))"
| "json_dumps (PyObject c r) =
     Inl (TypeError (''Object of type '' @ c @ '' is not JSON serializable''))"
| "json_items [] = Inr []"
| "json_items (x # xs) =
     (case json_dumps x of
        Inl e \<Rightarrow> Inl e
      | Inr s \<Rightarrow> (case json_items xs of Inl e \<Rightarrow> Inl e | Inr ss \<Rightarrow> Inr (s # ss)))"
| "json_pairs [] = Inr []"
| "json_pairs ((k, v) # kvs) =
     (case json_dumps v of
        Inl e \<Rightarrow> Inl e
      | Inr s \<Rightarrow>
          (case json_pairs kvs of
             Inl e \<Rightarrow> Inl e
           | Inr ss \<Rightarrow> Inr ((json_string k @ '': '' @ s) # ss)))"

subsection \<open>\<^verbatim>\<open>datetime.utcnow().isoformat()\<close>\<close>

record datetime =
  year :: nat
  month :: nat
  day :: nat
  hour :: nat
  minute :: nat
  second :: nat
  microsecond :: nat

definition isoformat :: "datetime \<Rightarrow> string" where
  "isoformat d =
     zero_pad 4 (year d) @ ''-'' @ zero_pad 2 (month d) @ ''-'' @ zero_pad 2 (day d) @ ''T''
     @ zero_pad 2 (hour d) @ '':'' @ zero_pad 2 (minute d) @ '':'' @ zero_pad 2 (second d)
     @ (if microsecond d = 0 then [] else ''.'' @ zero_pad 6 (microsecond d))"




section \<open>The agent and its process environment\<close>

text \<open>
  \<^verbatim>\<open>UniversalAgent\<close> keeps its identity, the preferred model and a reference to its
  current \<^verbatim>\<open>AgentState\<close> object. Objects of class \<^verbatim>\<open>AgentState\<close> live in a store, a
  list indexed by address; an object is its \<^verbatim>\<open>__dict__\<close>, from field name to value.
\<close>

type_synonym addr = nat

record agent =
  agent_id :: string
  role :: string
  model :: string
  state :: addr
  logger :: string

datatype level = DEBUG | INFO | ERROR

text \<open>A call of a \<^verbatim>\<open>logging.Logger\<close> method: level, message template, arguments.\<close>

record log_call =
  lvl :: level
  msg :: string
  margs :: "pyval list"

text \<open>
  Everything a method can read or change: the agent it is bound to (\<^verbatim>\<open>self\<close>), the
  store, the text of \<^verbatim>\<open>agents/AGENT_ACTIONS.md\<close>, the error with which the file system
  refuses to create the directory or to open the file for appending (if it does), the
  clock read by \<^verbatim>\<open>datetime.utcnow()\<close>, the calls made to loggers, the process
  environment, and the 128-bit values \<^verbatim>\<open>os.urandom(16)\<close> hands out, as numbers below
  \<open>2 ^ 128\<close>, with the count of draws so far.
\<close>

record machine =
  self :: agent
  store :: "py_dict list"
  action_log :: string
  io_fault :: "exn option"
  now :: datetime
  log_calls :: "log_call list"
  environ :: "(string \<times> string) list"
  urandom :: "nat \<Rightarrow> nat"
  draws :: nat

text \<open>
  A function object: \<^verbatim>\<open>__name__\<close>, the \<^verbatim>\<open>__is_tool__\<close> flag, \<^verbatim>\<open>__wrapped__\<close>, and
  what a call \<^verbatim>\<open>f(self, *args, **kwargs)\<close> does: it returns a result or raises, and
  leaves the machine changed.
\<close>

datatype 'r pyfunc =
  PyFunc (fname: string) (is_tool: bool) (wrapped: "'r pyfunc option")
         (run: "pyval list \<Rightarrow> py_dict \<Rightarrow> machine \<Rightarrow> (exn + 'r) \<times> machine")

section \<open>The \<^verbatim>\<open>tool\<close> decorator\<close>

text \<open>A dict built by inserting items in order: a later item with an old key overwrites.\<close>

definition dict_of_items :: "(string \<times> pyval) list \<Rightarrow> py_dict" where
  "dict_of_items items = fold (\<lambda>(k, v) d. AList.update k v d) items []"

text \<open>\<^verbatim>\<open>{k: type(v).__name__ for k, v in kwargs.items()}\<close>\<close>

definition kwarg_types :: "py_dict \<Rightarrow> py_dict" where
  "kwarg_types kwargs = dict_of_items (map (\<lambda>(k, v). (k, PyStr (type_name v))) kwargs)"

text \<open>The fixed parts of the entry: \<^verbatim>\<open>{"args": "\<close> and \<^verbatim>\<open>", "kwargs": \<close>.\<close>

definition args_open :: string where
  "args_open = [CHR ''{'', CHR 0x22] @ ''args'' @ [CHR 0x22] @ '': '' @ [CHR 0x22]"

definition kwargs_open :: string where
  "kwargs_open = [CHR 0x22] @ '', '' @ [CHR 0x22] @ ''kwargs'' @ [CHR 0x22] @ '': ''"

text \<open>
  The text handed to \<^verbatim>\<open>lf.write\<close>:
  \<^verbatim>\<open>f"- {datetime.utcnow().isoformat()} | {self.agent_id}.{func.__name__}: "
  f"{{\"args\": \"{str(args)[:120]}\", \"kwargs\": {json.dumps({...})}}}\n"\<close>
\<close>

definition log_entry :: "string \<Rightarrow> pyval list \<Rightarrow> py_dict \<Rightarrow> machine \<Rightarrow> exn + string" where
  "log_entry name args kwargs m =
     (case json_dumps (PyDict (kwarg_types kwargs)) of
        Inl e \<Rightarrow> Inl e
      | Inr js \<Rightarrow>
          Inr (''- '' @ isoformat (now m) @ '' | '' @ agent_id (self m) @ ''.'' @ name @ '': ''
               @ args_open @ take 120 (py_str_tuple args) @ kwargs_open @ js @ ''}''
               @ [CHR 0x0A]))"

text \<open>
  The body of the inner \<^verbatim>\<open>try\<close>: \<^verbatim>\<open>os.makedirs\<close>, \<^verbatim>\<open>open(log_path, 'a')\<close> and
  \<^verbatim>\<open>lf.write\<close>. The file system fails before anything is written.
\<close>

definition append_action :: "string \<Rightarrow> pyval list \<Rightarrow> py_dict \<Rightarrow> machine \<Rightarrow> exn + machine" where
  "append_action name args kwargs m =
     (case io_fault m of
        Some e \<Rightarrow> Inl e
      | None \<Rightarrow>
          (case log_entry name args kwargs m of
             Inl e \<Rightarrow> Inl e
           | Inr entry \<Rightarrow> Inr (m\<lparr>action_log := action_log m @ entry\<rparr>)))"

definition logger_call :: "level \<Rightarrow> string \<Rightarrow> pyval list \<Rightarrow> machine \<Rightarrow> machine" where
  "logger_call l template xs m =
     m\<lparr>log_calls := log_calls m @ [\<lparr>lvl = l, msg = template, margs = xs\<rparr>]\<rparr>"

text \<open>
  \<^verbatim>\<open>wrapper(self, *args, **kwargs)\<close>. The call of \<open>func\<close> stands outside both
  \<^verbatim>\<open>try\<close> blocks. The inner handler (\<^verbatim>\<open>except Exception: pass\<close>) ends the inner block
  normally, so the outer handler with its debug message runs only if the inner block
  itself raises.
\<close>

definition wrapper ::
  "'r pyfunc \<Rightarrow> pyval list \<Rightarrow> py_dict \<Rightarrow> machine \<Rightarrow> (exn + 'r) \<times> machine" where
  "wrapper func args kwargs m =
     (case run func args kwargs m of
        (Inl e, m1) \<Rightarrow> (Inl e, m1)
      | (Inr result, m1) \<Rightarrow>
          (let inner = (case append_action (fname func) args kwargs m1 of
                          Inl e \<Rightarrow> Inr m1
                        | Inr m2 \<Rightarrow> Inr m2);
               m3 = (case inner of
                       Inl (e :: exn) \<Rightarrow>
                         logger_call DEBUG ''Failed to append action for %s''
                           [PyStr (fname func)] m1
                     | Inr m2 \<Rightarrow> m2)
           in (Inr result, m3)))"

text \<open>
  \<^verbatim>\<open>tool(func)\<close> flags \<open>func\<close> and returns the flagged wrapper, which keeps \<open>func\<close> as
  \<^verbatim>\<open>__wrapped__\<close>. The wrapper's own \<^verbatim>\<open>__name__\<close> is \<^verbatim>\<open>wrapper\<close>.
\<close>

definition tool :: "'r pyfunc \<Rightarrow> 'r pyfunc" where
  "tool func =
     (let marked = PyFunc (fname func) True (wrapped func) (run func)
      in PyFunc ''wrapper'' True (Some marked) (wrapper marked))"

text \<open>
  A coroutine function (\<^verbatim>\<open>async def\<close>, as \<^verbatim>\<open>FrontendDeveloperAgent.develop_feature\<close>): the
  call runs nothing of the body and returns a coroutine, which runs the body when it is
  awaited.
\<close>

datatype 'r coroutine = Coroutine (resume: "machine \<Rightarrow> (exn + 'r) \<times> machine")

definition async_def ::
  "string \<Rightarrow> (pyval list \<Rightarrow> py_dict \<Rightarrow> machine \<Rightarrow> (exn + 'r) \<times> machine)
     \<Rightarrow> 'r coroutine pyfunc" where
  "async_def name body =
     PyFunc name False None (\<lambda>args kwargs m. (Inr (Coroutine (body args kwargs)), m))"

section \<open>Introspection: \<^verbatim>\<open>tool_methods\<close> and \<^verbatim>\<open>collect_tools\<close>\<close>

text \<open>
  What the scan observes of an attribute value: whether \<^verbatim>\<open>callable(candidate)\<close> holds and
  whether \<^verbatim>\<open>getattr(candidate, "__is_tool__", False)\<close> is true; \<open>ident\<close> names the value.
  The attributes of an instance are listed in the order in which \<^verbatim>\<open>getattr\<close> resolves
  a name: the instance's own attributes, then its class, then the base classes.
\<close>

record member =
  ident :: string
  is_callable :: bool
  tool_flag :: bool

type_synonym namespace = "(string \<times> member) list"

text \<open>\<^verbatim>\<open>dir(obj)\<close>: the attribute names, each once, sorted.\<close>

definition py_dir :: "namespace \<Rightarrow> string list" where
  "py_dir ns = sort (remdups (map fst ns))"

definition py_getattr :: "namespace \<Rightarrow> string \<Rightarrow> exn + member" where
  "py_getattr ns attr =
     (case map_of ns attr of
        None \<Rightarrow> Inl (AttributeError attr)
      | Some candidate \<Rightarrow> Inr candidate)"

text \<open>\<^verbatim>\<open>attr.startswith("_")\<close>\<close>

fun startswith_underscore :: "string \<Rightarrow> bool" where
  "startswith_underscore [] = False"
| "startswith_underscore (c # cs) = (c = CHR ''_'')"

text \<open>The \<^verbatim>\<open>for attr in dir(self)\<close> loop, with the list \<open>methods\<close> built so far.\<close>

fun scan_attrs :: "namespace \<Rightarrow> string list \<Rightarrow> member list \<Rightarrow> exn + member list" where
  "scan_attrs ns [] methods = Inr methods"
| "scan_attrs ns (attr # rest) methods =
     (if startswith_underscore attr then scan_attrs ns rest methods
      else (case py_getattr ns attr of
              Inl e \<Rightarrow> Inl e
            | Inr candidate \<Rightarrow>
                if is_callable candidate \<and> tool_flag candidate
                then scan_attrs ns rest (methods @ [candidate])
                else scan_attrs ns rest methods))"

definition tool_methods :: "namespace \<Rightarrow> exn + member list" where
  "tool_methods ns = scan_attrs ns (py_dir ns) []"


text \<open>
  The tools of an instance: the names that do not start with an underscore and resolve
  to a callable carrying the flag.
\<close>

definition is_tool_name :: "namespace \<Rightarrow> string \<Rightarrow> bool" where
  "is_tool_name ns attr =
     (\<not> startswith_underscore attr \<and>
      (case map_of ns attr of
         None \<Rightarrow> False
       | Some candidate \<Rightarrow> is_callable candidate \<and> tool_flag candidate))"

section \<open>Agent state\<close>

datatype Status =
  Status_active | Status_idle | Status_busy | Status_error | Status_maintenance

fun Status_value :: "Status \<Rightarrow> string" where
  "Status_value Status_active = ''active''"
| "Status_value Status_idle = ''idle''"
| "Status_value Status_busy = ''busy''"
| "Status_value Status_error = ''error''"
| "Status_value Status_maintenance = ''maintenance''"

definition PyStatus :: "Status \<Rightarrow> pyval" where
  "PyStatus s = PyEnum ''Status'' (Status_value s)"

text \<open>The declared fields of \<^verbatim>\<open>AgentState\<close>, and \<^verbatim>\<open>AgentState()\<close> with its defaults.\<close>

definition AgentState_fields :: "string list" where
  "AgentState_fields =
     [''status'', ''current_task'', ''resource_utilization'', ''dependencies'',
      ''performance_metrics'']"

definition AgentState_default :: py_dict where
  "AgentState_default =
     [(''status'', PyStatus Status_idle),
      (''current_task'', PyNone),
      (''resource_utilization'', PyDict []),
      (''dependencies'', PyList []),
      (''performance_metrics'', PyDict [])]"

text \<open>
  pydantic's \<^verbatim>\<open>BaseModel.model_copy(update=...)\<close>: a new object whose \<^verbatim>\<open>__dict__\<close> is a
  copy of the old one with \<^verbatim>\<open>__dict__.update(update)\<close> applied. pydantic documents
  that the update is not validated. The copy is shallow; the fields are kept here by
  value, since no operation below changes a list or a dict in place, so that the
  containers the two objects share cannot be told from copies.
\<close>

definition model_copy :: "py_dict \<Rightarrow> py_dict \<Rightarrow> py_dict" where
  "model_copy obj update = fold (\<lambda>(k, v) d. AList.update k v d) update obj"

text \<open>
  pydantic's \<^verbatim>\<open>BaseModel.model_dump()\<close> in its default Python mode: the items of
  \<^verbatim>\<open>__dict__\<close> that are declared fields, as a fresh dict; a value of an unexpected
  type is passed through.
\<close>

definition model_dump :: "py_dict \<Rightarrow> py_dict" where
  "model_dump obj = filter (\<lambda>(k, v). k \<in> set AgentState_fields) obj"

text \<open>
  Allocation of a new object in the store. A reference held by a Python object always
  points to an object: \<open>wf_machine\<close> below says so of \<^verbatim>\<open>self.state\<close>.
\<close>

definition alloc :: "py_dict \<Rightarrow> machine \<Rightarrow> addr \<times> machine" where
  "alloc obj m = (length (store m), m\<lparr>store := store m @ [obj]\<rparr>)"

definition update_state :: "py_dict \<Rightarrow> machine \<Rightarrow> (exn + addr) \<times> machine" where
  "update_state kwargs m =
     (let (updated, m1) = alloc (model_copy (store m ! state (self m)) kwargs) m;
          m2 = m1\<lparr>self := (self m1)\<lparr>state := updated\<rparr>\<rparr>;
          m3 = logger_call DEBUG ''state_updated | %s'' [PyDict (model_dump (store m2 ! updated))] m2
      in (Inr (state (self m3)), m3))"

definition get_state :: "machine \<Rightarrow> (exn + py_dict) \<times> machine" where
  "get_state m = (Inr (model_dump (store m ! state (self m))), m)"

text \<open>
  \<^verbatim>\<open>UniversalAgent.__init__(agent_id, role, model)\<close> for an instance of the class named
  \<open>cls\<close>; \<^verbatim>\<open>model or os.getenv("AGENT_MODEL", "gemini-2.0-flash")\<close>.
\<close>

definition getenv :: "machine \<Rightarrow> string \<Rightarrow> string \<Rightarrow> string" where
  "getenv m key dflt = (case map_of (environ m) key of None \<Rightarrow> dflt | Some v \<Rightarrow> v)"

definition UniversalAgent_init ::
  "string \<Rightarrow> string \<Rightarrow> string \<Rightarrow> string \<Rightarrow> machine \<Rightarrow> machine" where
  "UniversalAgent_init cls aid rl mdl m =
     (let (st, m1) = alloc AgentState_default m
      in m1\<lparr>self := \<lparr>agent_id = aid, role = rl,
                        model = (if mdl \<noteq> [] then mdl
                                 else getenv m ''AGENT_MODEL'' ''gemini-2.0-flash''),
                        state = st, logger = cls\<rparr>\<rparr>)"

text \<open>The references of a machine point into its store.\<close>

definition wf_machine :: "machine \<Rightarrow> bool" where
  "wf_machine m = (state (self m) < length (store m))"

section \<open>Messages\<close>

datatype MessageType =
  MessageType_request | MessageType_response | MessageType_notification | MessageType_error

datatype Priority =
  Priority_critical | Priority_high | Priority_medium | Priority_low

fun MessageType_value :: "MessageType \<Rightarrow> string" where
  "MessageType_value MessageType_request = ''request''"
| "MessageType_value MessageType_response = ''response''"
| "MessageType_value MessageType_notification = ''notification''"
| "MessageType_value MessageType_error = ''error''"

fun Priority_value :: "Priority \<Rightarrow> string" where
  "Priority_value Priority_critical = ''critical''"
| "Priority_value Priority_high = ''high''"
| "Priority_value Priority_medium = ''medium''"
| "Priority_value Priority_low = ''low''"

record Message =
  message_id :: string
  sender :: string
  recipient :: string
  message_type :: MessageType
  priority :: Priority
  payload :: py_dict
  timestamp :: string
  requires_response :: bool
  deadline :: "string option"

text \<open>
  \<^verbatim>\<open>str(uuid.uuid4())\<close>: sixteen random bytes as a 128-bit number, the variant and version
  bits overwritten, printed as \<^verbatim>\<open>'%032x'\<close> and cut 8-4-4-4-12.
\<close>

fun hex_pad :: "nat \<Rightarrow> nat \<Rightarrow> string" where
  "hex_pad 0 n = []"
| "hex_pad (Suc w) n = hex_pad w (n div 16) @ [hex_char (n mod 16)]"

definition uuid4_int :: "128 word \<Rightarrow> 128 word" where
  "uuid4_int r =
     (((r AND NOT (push_bit 48 0xc000)) OR push_bit 48 0x8000)
        AND NOT (push_bit 64 0xf000)) OR push_bit 76 4"

definition uuid_str :: "128 word \<Rightarrow> string" where
  "uuid_str u =
     (let h = hex_pad 32 (unat u)
      in take 8 h @ ''-'' @ take 4 (drop 8 h) @ ''-'' @ take 4 (drop 12 h) @ ''-''
         @ take 4 (drop 16 h) @ ''-'' @ drop 20 h)"

definition uuid4 :: "machine \<Rightarrow> string \<times> machine" where
  "uuid4 m =
     (uuid_str (uuid4_int (word_of_nat (urandom m (draws m)))), m\<lparr>draws := Suc (draws m)\<rparr>)"

text \<open>
  \<^verbatim>\<open>send_message\<close>; an omitted \<open>priority\<close> or \<open>requires_response\<close> is \<open>None\<close> and takes
  the default of the signature. The arguments of \<^verbatim>\<open>logger.info\<close>, among them
  \<^verbatim>\<open>json.dumps(message.payload)\<close>, are evaluated before the call.
\<close>

definition send_message ::
  "string \<Rightarrow> MessageType \<Rightarrow> py_dict \<Rightarrow> Priority option \<Rightarrow> bool option \<Rightarrow> string option
     \<Rightarrow> machine \<Rightarrow> (exn + Message) \<times> machine" where
  "send_message rcpt mtype pl prio_arg rr_arg dl m =
     (let prio = (case prio_arg of None \<Rightarrow> Priority_medium | Some p \<Rightarrow> p);
          rr = (case rr_arg of None \<Rightarrow> False | Some b \<Rightarrow> b);
          (mid, m1) = uuid4 m;
          message = \<lparr>message_id = mid, sender = agent_id (self m1), recipient = rcpt,
                     message_type = mtype, priority = prio, payload = pl,
                     timestamp = isoformat (now m1), requires_response = rr,
                     deadline = dl\<rparr>
      in (case json_dumps (PyDict (payload message)) of
            Inl e \<Rightarrow> (Inl e, m1)
          | Inr js \<Rightarrow>
              (Inr message,
               logger_call INFO
                 ''send_message | recipient=%s | type=%s | priority=%s | payload=%s''
                 [PyStr rcpt, PyEnum ''MessageType'' (MessageType_value mtype),
                  PyEnum ''Priority'' (Priority_value prio), PyStr js] m1)))"

section \<open>Agents of the repository\<close>

text \<open>
  Binding of the call arguments to the one parameter \<open>p\<close> that follows \<^verbatim>\<open>self\<close>; any
  other shape of call is a \<^verbatim>\<open>TypeError\<close>.
\<close>

fun bind_one :: "string \<Rightarrow> pyval list \<Rightarrow> py_dict \<Rightarrow> exn + pyval" where
  "bind_one p [a] [] = Inr a"
| "bind_one p [] [(k, a)] = (if k = p then Inr a else Inl (TypeError k))"
| "bind_one p args kwargs = Inl (TypeError p)"

text \<open>
  \<^verbatim>\<open>ComplianceOfficerAgent.check_compliance(self, artifact)\<close>:
  \<^verbatim>\<open>name = artifact.get("name", "artifact")\<close>, an info message, and the result
  \<^verbatim>\<open>{"status": "compliant", "artifact": name}\<close>. Of the values here only a dict has
  a \<^verbatim>\<open>get\<close> method.
\<close>

definition check_compliance_body ::
  "pyval list \<Rightarrow> py_dict \<Rightarrow> machine \<Rightarrow> (exn + pyval) \<times> machine" where
  "check_compliance_body args kwargs m =
     (case bind_one ''artifact'' args kwargs of
        Inl e \<Rightarrow> (Inl e, m)
      | Inr artifact \<Rightarrow>
          (case artifact of
             PyDict d \<Rightarrow>
               (let name = (case map_of d ''name'' of None \<Rightarrow> PyStr ''artifact'' | Some v \<Rightarrow> v)
                in (Inr (PyDict [(''status'', PyStr ''compliant''), (''artifact'', name)]),
                    logger_call INFO ''Checking compliance for: %s'' [name] m))
           | _ \<Rightarrow> (Inl (AttributeError ''get''), m)))"

definition check_compliance :: "pyval pyfunc" where
  "check_compliance = tool (PyFunc ''check_compliance'' False None check_compliance_body)"

text \<open>A process before any agent exists, and the same on a read-only file system.\<close>

definition process_start :: machine where
  "process_start =
     \<lparr>self = \<lparr>agent_id = [], role = [], model = [], state = 0, logger = []\<rparr>,
      store = [],
      action_log = [],
      io_fault = None,
      now = \<lparr>year = 2025, month = 8, day = 17, hour = 9, minute = 30, second = 5,
             microsecond = 120034\<rparr>,
      log_calls = [],
      environ = [],
      urandom = (\<lambda>n. 0x0123456789abcdef0123456789abcdef + n),
      draws = 0\<rparr>"

definition compliance_officer :: machine where
  "compliance_officer =
     UniversalAgent_init ''ComplianceOfficerAgent'' ''compliance-officer-001''
       ''Regulatory compliance and governance'' ''openai/o3'' process_start"

definition read_only_fs :: "machine \<Rightarrow> machine" where
  "read_only_fs m = m\<lparr>io_fault := Some (OSError ''Read-only file system'')\<rparr>"

definition policy_artifact :: pyval where
  "policy_artifact = PyDict [(''name'', PyStr ''policy'')]"

text \<open>
  Attributes as the scan sees them: a data attribute, a plain method and a method under
  \<^verbatim>\<open>@tool\<close>, each under its name.
\<close>

definition data_attribute :: "string \<Rightarrow> string \<times> member" where
  "data_attribute n = (n, \<lparr>ident = n, is_callable = False, tool_flag = False\<rparr>)"

definition plain_method :: "string \<Rightarrow> string \<Rightarrow> string \<times> member" where
  "plain_method cls n = (n, \<lparr>ident = cls @ ''.'' @ n, is_callable = True, tool_flag = False\<rparr>)"

definition tool_method :: "string \<Rightarrow> string \<Rightarrow> string \<times> member" where
  "tool_method cls n = (n, \<lparr>ident = cls @ ''.'' @ n, is_callable = True, tool_flag = True\<rparr>)"

text \<open>
  The attributes \<^verbatim>\<open>__init__\<close> sets on every instance, the methods of \<^verbatim>\<open>UniversalAgent\<close> and
  those of \<^verbatim>\<open>DocumentationAgent\<close> in the order of their declaration. The attributes every
  Python object has start with an underscore and are left out but for \<^verbatim>\<open>__init__\<close>.
\<close>

definition instance_attributes :: namespace where
  "instance_attributes =
     [data_attribute ''agent_id'', data_attribute ''role'', data_attribute ''model'',
      data_attribute ''state'', data_attribute ''logger'']"

definition UniversalAgent_class :: namespace where
  "UniversalAgent_class =
     [plain_method ''UniversalAgent'' ''__init__'',
      plain_method ''UniversalAgent'' ''tool_methods'',
      plain_method ''UniversalAgent'' ''send_message'',
      plain_method ''UniversalAgent'' ''update_state'',
      plain_method ''UniversalAgent'' ''get_state'',
      plain_method ''UniversalAgent'' ''as_adk_agent'']"

definition DocumentationAgent_class :: namespace where
  "DocumentationAgent_class =
     [plain_method ''DocumentationAgent'' ''__init__'',
      tool_method ''DocumentationAgent'' ''generate_agents_overview'',
      tool_method ''DocumentationAgent'' ''summarize_action_logs'',
      tool_method ''DocumentationAgent'' ''get_gcp_api_documentation_info'',
      tool_method ''DocumentationAgent'' ''generate_comprehensive_overview'']"

text \<open>An instance of the base class, and an instance of \<^verbatim>\<open>DocumentationAgent\<close>.\<close>

definition universal_agent :: namespace where
  "universal_agent = instance_attributes @ UniversalAgent_class"

definition documentation_agent :: namespace where
  "documentation_agent = instance_attributes @ DocumentationAgent_class @ UniversalAgent_class"

text \<open>A payload with a due date: \<^verbatim>\<open>{"due": datetime(2025, 1, 1)}\<close>.\<close>

definition due_payload :: py_dict where
  "due_payload = [(''due'', PyObject ''datetime'' ''datetime.datetime(2025, 1, 1, 0, 0)'')]"

section \<open>Properties of the decorator\<close>

lemma run_tool [simp]: "run (tool func) = wrapper (PyFunc (fname func) True (wrapped func) (run func))"
  by (simp add: tool_def Let_def)


lemma wrapper_return_fails:
  assumes "run func args kwargs m = (Inr r, m1)"
    and "append_action (fname func) args kwargs m1 = Inl e"
  shows "wrapper func args kwargs m = (Inr r, m1)"
  using assms by (simp add: wrapper_def)

lemma wrapper_return_appends:
  assumes "run func args kwargs m = (Inr r, m1)"
    and "append_action (fname func) args kwargs m1 = Inr m2"
  shows "wrapper func args kwargs m = (Inr r, m2)"
  using assms by (simp add: wrapper_def)

subsection \<open>The entry never fails to format\<close>






lemma update_values: "snd ` set (AList.update k v d) \<subseteq> insert v (snd ` set d)"
  by (induction d) auto

lemma fold_update_values:
  "snd ` set (fold (\<lambda>(k, v) d. AList.update k v d) items d) \<subseteq> snd ` set items \<union> snd ` set d"
proof (induction items arbitrary: d)
  case Nil
  then show ?case by simp
next
  case (Cons kv items)
  obtain k v where kv: "kv = (k, v)" by (cases kv)
  have "snd ` set (fold (\<lambda>(k, v) d. AList.update k v d) items (AList.update k v d))
          \<subseteq> snd ` set items \<union> snd ` set (AList.update k v d)"
    by (rule Cons.IH)
  also have "\<dots> \<subseteq> snd ` set items \<union> insert v (snd ` set d)"
    using update_values[of k v d] by blast
  finally show ?case using kv by auto
qed

lemma kwarg_types_values: "x \<in> snd ` set (kwarg_types kwargs) \<Longrightarrow> \<exists>s. x = PyStr s"
proof -
  assume "x \<in> snd ` set (kwarg_types kwargs)"
  then have "x \<in> snd ` set (map (\<lambda>(k, v). (k, PyStr (type_name v))) kwargs)"
    using fold_update_values[of "map (\<lambda>(k, v). (k, PyStr (type_name v))) kwargs" "[]"]
    by (auto simp: kwarg_types_def dict_of_items_def)
  then show ?thesis by auto
qed

lemma json_pairs_strings:
  "(\<And>x. x \<in> snd ` set d \<Longrightarrow> \<exists>s. x = PyStr s) \<Longrightarrow> \<exists>ss. json_pairs d = Inr ss"
proof (induction d)
  case Nil
  then show ?case by simp
next
  case (Cons kv d)
  obtain k v where kv: "kv = (k, v)" by (cases kv)
  from Cons.prems[of v] kv obtain s where v: "v = PyStr s" by auto
  from Cons.IH Cons.prems obtain ss where "json_pairs d = Inr ss" by auto
  with kv v show ?case by simp
qed

lemma log_entry_total: "\<exists>entry. log_entry name args kwargs m = Inr entry"
proof -
  obtain ss where "json_pairs (kwarg_types kwargs) = Inr ss"
    using json_pairs_strings[of "kwarg_types kwargs"] kwarg_types_values by blast
  then show ?thesis by (simp add: log_entry_def)
qed

lemma append_action_ok:
  assumes "io_fault m = None"
  shows "\<exists>entry. log_entry name args kwargs m = Inr entry
           \<and> append_action name args kwargs m = Inr (m\<lparr>action_log := action_log m @ entry\<rparr>)"
  using assms log_entry_total[of name args kwargs m] by (auto simp: append_action_def)

lemma append_action_fault:
  assumes "io_fault m = Some e"
  shows "append_action name args kwargs m = Inl e"
  using assms by (simp add: append_action_def)

text \<open>
  C1. When the underlying method returns \<open>r\<close> and the append step fails, with whatever
  error \<open>e\<close> (the file system's, or one raised while the entry is formatted), then the
  wrapped method returns \<open>r\<close>: it raises nothing, and it leaves the machine as the
  underlying method left it.
\<close>

theorem tool_swallows_logging_failure:
  assumes "run func args kwargs m = (Inr r, m1)"
    and "append_action (fname func) args kwargs m1 = Inl e"
  shows "run (tool func) args kwargs m = (Inr r, m1)"
  using assms by (simp add: wrapper_return_fails)


subsection \<open>Line breaks in an entry\<close>















subsection \<open>The timestamp has the ISO 8601 form\<close>















subsection \<open>Calls of \<^verbatim>\<open>check_compliance\<close>\<close>

lemma check_compliance_returns:
  "run (PyFunc ''check_compliance'' False None check_compliance_body) [policy_artifact] [] m
     = (Inr (PyDict [(''status'', PyStr ''compliant''), (''artifact'', PyStr ''policy'')]),
        logger_call INFO ''Checking compliance for: %s'' [PyStr ''policy''] m)"
  by (simp add: check_compliance_body_def policy_artifact_def Let_def)



lemma compliance_officer_unfold:
  "compliance_officer =
     process_start\<lparr>self := \<lparr>agent_id = ''compliance-officer-001'',
                              role = ''Regulatory compliance and governance'',
                              model = ''openai/o3'', state = 0,
                              logger = ''ComplianceOfficerAgent''\<rparr>,
                   store := [AgentState_default]\<rparr>"
  by (simp add: compliance_officer_def UniversalAgent_init_def alloc_def process_start_def)

lemma zero_pad_numeral:
  "zero_pad (numeral k) n = zero_pad (pred_numeral k) (n div 10) @ [digit_char (n mod 10)]"
proof -
  have "zero_pad (Suc (pred_numeral k)) n
          = zero_pad (pred_numeral k) (n div 10) @ [digit_char (n mod 10)]"
    by (rule zero_pad.simps)
  then show ?thesis by (simp only: numeral_eq_Suc[symmetric])
qed

lemma zero_pad_1: "zero_pad (Suc 0) n = [digit_char (n mod 10)]"
  by simp

lemma isoformat_example:
  "isoformat \<lparr>year = 2025, month = 8, day = 17, hour = 9, minute = 30, second = 5,
               microsecond = 120034\<rparr> = ''2025-08-17T09:30:05.120034''"
  by (simp add: isoformat_def digit_char_def zero_pad_numeral zero_pad_1)

lemma process_start_fields [simp]:
  "action_log process_start = []" "io_fault process_start = None"
  "isoformat (now process_start) = ''2025-08-17T09:30:05.120034''"
  "store process_start = []" "log_calls process_start = []" "draws process_start = 0"
  using isoformat_example by (simp_all add: process_start_def)



subsection \<open>Coroutine functions under the decorator\<close>

text \<open>
  The wrapper is a plain function: around a coroutine function it appends the entry when
  the coroutine is created, before the body runs and whatever the body does when awaited.
\<close>

lemma tool_return_appends:
  assumes "run func args kwargs m = (Inr r, m1)"
    and "append_action (fname func) args kwargs m1 = Inr m2"
  shows "run (tool func) args kwargs m = (Inr r, m2)"
  using assms by (simp add: wrapper_return_appends)

lemma async_tool_logs_at_call:
  assumes "io_fault m = None"
  shows "\<exists>entry. log_entry name args kwargs m = Inr entry
           \<and> run (tool (async_def name body)) args kwargs m
               = (Inr (Coroutine (body args kwargs)), m\<lparr>action_log := action_log m @ entry\<rparr>)"
proof -
  from append_action_ok[OF assms, of name args kwargs]
  obtain entry where t: "log_entry name args kwargs m = Inr entry"
    and a: "append_action name args kwargs m = Inr (m\<lparr>action_log := action_log m @ entry\<rparr>)"
    by blast
  have "run (tool (async_def name body)) args kwargs m
          = (Inr (Coroutine (body args kwargs)), m\<lparr>action_log := action_log m @ entry\<rparr>)"
    by (rule tool_return_appends[where ?m1.0 = m]) (simp_all add: async_def_def a)
  with t show ?thesis by blast
qed

subsection \<open>Concrete calls\<close>

lemma compliance_officer_fields [simp]:
  "action_log compliance_officer = []" "io_fault compliance_officer = None"
  "agent_id (self compliance_officer) = ''compliance-officer-001''"
  "isoformat (now compliance_officer) = ''2025-08-17T09:30:05.120034''"
  "state (self compliance_officer) = 0"
  "store compliance_officer = [AgentState_default]"
  by (simp_all add: compliance_officer_unfold)

lemma logger_call_fields [simp]:
  "action_log (logger_call l t xs m) = action_log m"
  "io_fault (logger_call l t xs m) = io_fault m"
  "self (logger_call l t xs m) = self m"
  "now (logger_call l t xs m) = now m"
  "store (logger_call l t xs m) = store m"
  "draws (logger_call l t xs m) = draws m"
  by (simp_all add: logger_call_def)

lemma read_only_fs_fields [simp]:
  "action_log (read_only_fs m) = action_log m"
  "io_fault (read_only_fs m) = Some (OSError ''Read-only file system'')"
  "self (read_only_fs m) = self m"
  by (simp_all add: read_only_fs_def)


text \<open>
  Witness for C1: \<^verbatim>\<open>check_compliance({"name": "policy"})\<close> on a read-only file system.
\<close>

theorem tool_swallows_logging_failure_witness:
  "run (PyFunc ''check_compliance'' False None check_compliance_body) [policy_artifact] []
       (read_only_fs compliance_officer)
     = (Inr (PyDict [(''status'', PyStr ''compliant''), (''artifact'', PyStr ''policy'')]),
        logger_call INFO ''Checking compliance for: %s'' [PyStr ''policy'']
          (read_only_fs compliance_officer))
   \<and> append_action ''check_compliance'' [policy_artifact] []
         (logger_call INFO ''Checking compliance for: %s'' [PyStr ''policy'']
            (read_only_fs compliance_officer))
       = Inl (OSError ''Read-only file system'')
   \<and> run check_compliance [policy_artifact] [] (read_only_fs compliance_officer)
     = (Inr (PyDict [(''status'', PyStr ''compliant''), (''artifact'', PyStr ''policy'')]),
        logger_call INFO ''Checking compliance for: %s'' [PyStr ''policy'']
          (read_only_fs compliance_officer))"
proof -
  let ?f = "PyFunc ''check_compliance'' False None check_compliance_body"
  let ?m = "read_only_fs compliance_officer"
  let ?m1 = "logger_call INFO ''Checking compliance for: %s'' [PyStr ''policy''] ?m"
  have h1: "run ?f [policy_artifact] [] ?m
      = (Inr (PyDict [(''status'', PyStr ''compliant''), (''artifact'', PyStr ''policy'')]), ?m1)"
    by (rule check_compliance_returns)
  have h2: "append_action (fname ?f) [policy_artifact] [] ?m1
      = Inl (OSError ''Read-only file system'')"
    by (rule append_action_fault) simp
  from tool_swallows_logging_failure[OF h1 h2] h1 h2 show ?thesis
    by (simp add: check_compliance_def)
qed



text \<open>
  \<^verbatim>\<open>repr\<close> of a line break, a control character, a letter, a printable and two
  non-printable Latin-1 code points and the delete character.
\<close>

lemma str_repr_example:
  "str_repr [CHR 0x0A, CHR 0x01, CHR ''a'', CHR 0xE9, CHR 0xA0, CHR 0xAD, CHR 0x7F]
     = [CHR 0x27, CHR 0x5C, CHR ''n'', CHR 0x5C, CHR ''x'', CHR ''0'', CHR ''1'', CHR ''a'',
        CHR 0xE9, CHR 0x5C, CHR ''x'', CHR ''a'', CHR ''0'', CHR 0x5C, CHR ''x'', CHR ''a'',
        CHR ''d'', CHR 0x5C, CHR ''x'', CHR ''7'', CHR ''f'', CHR 0x27]"
  by (simp add: str_repr_def repr_char_def printable_def hex_char_def Let_def)





section \<open>Properties of the agent state\<close>

lemma map_of_model_copy:
  "distinct (map fst kwargs) \<Longrightarrow>
   map_of (model_copy obj kwargs) k
     = (case map_of kwargs k of Some v \<Rightarrow> Some v | None \<Rightarrow> map_of obj k)"
proof (induction kwargs arbitrary: obj)
  case Nil
  then show ?case by (simp add: model_copy_def)
next
  case (Cons kv kwargs)
  obtain k' v' where kv: "kv = (k', v')" by (cases kv)
  from Cons.prems kv have fresh: "map_of kwargs k' = None"
    by (simp add: map_of_eq_None_iff)
  from Cons.prems have d: "distinct (map fst kwargs)" by simp
  have "model_copy obj (kv # kwargs) = model_copy (AList.update k' v' obj) kwargs"
    by (simp add: model_copy_def kv)
  with Cons.IH[OF d, of "AList.update k' v' obj"] fresh kv show ?case
    by (auto simp: update_conv' split: option.splits)
qed

lemma update_state_unfold:
  "update_state kwargs m =
     (Inr (length (store m)),
      logger_call DEBUG ''state_updated | %s''
        [PyDict (model_dump (model_copy (store m ! state (self m)) kwargs))]
        (m\<lparr>store := store m @ [model_copy (store m ! state (self m)) kwargs],
           self := (self m)\<lparr>state := length (store m)\<rparr>\<rparr>))"
  by (simp add: update_state_def alloc_def Let_def logger_call_def)

lemma update_state_store:
  "store (snd (update_state kwargs m))
     = store m @ [model_copy (store m ! state (self m)) kwargs]"
  by (simp add: update_state_unfold)

lemma update_state_self:
  "self (snd (update_state kwargs m)) = (self m)\<lparr>state := length (store m)\<rparr>"
  by (simp add: update_state_unfold)

text \<open>
  C4. \<^verbatim>\<open>update_state\<close> leaves every object of the store as it was, the object that was
  the agent's state before the call among them: whoever holds the old reference reads the
  old fields. The agent's state is a new object.
\<close>

theorem update_state_keeps_prior_state:
  assumes "wf_machine m" and "update_state kwargs m = (res, m')"
  shows "store m' ! state (self m) = store m ! state (self m)
       \<and> (\<forall>a. a < length (store m) \<longrightarrow> store m' ! a = store m ! a)
       \<and> state (self m') \<noteq> state (self m)"
proof -
  from assms(2) have s: "store m' = store m @ [model_copy (store m ! state (self m)) kwargs]"
    and a: "self m' = (self m)\<lparr>state := length (store m)\<rparr>"
    using update_state_store[of kwargs m] update_state_self[of kwargs m] by simp_all
  from assms(1) have "state (self m) < length (store m)" by (simp add: wf_machine_def)
  with s a show ?thesis by (simp add: nth_append)
qed

lemma get_state_after_update:
  "fst (get_state (snd (update_state kwargs m)))
     = Inr (model_dump (model_copy (store m ! state (self m)) kwargs))"
  by (simp add: update_state_unfold get_state_def)

lemma init_state:
  "store (UniversalAgent_init cls aid rl mdl m0)
     ! state (self (UniversalAgent_init cls aid rl mdl m0)) = AgentState_default"
  by (simp add: UniversalAgent_init_def alloc_def)

lemma init_wf: "wf_machine (UniversalAgent_init cls aid rl mdl m0)"
  by (simp add: UniversalAgent_init_def alloc_def wf_machine_def)


lemma update_state_fresh_agent:
  "fst (get_state (snd (update_state [(''status'', PyStr ''busy''), (''current_task'', PyStr ''T1'')]
                          (UniversalAgent_init cls aid rl mdl m0))))
     = Inr [(''status'', PyStr ''busy''), (''current_task'', PyStr ''T1''),
            (''resource_utilization'', PyDict []), (''dependencies'', PyList []),
            (''performance_metrics'', PyDict [])]"
  by (simp add: get_state_after_update init_state
      model_copy_def model_dump_def AgentState_default_def AgentState_fields_def)

text \<open>
  C5. \<^verbatim>\<open>update_state(**kwargs)\<close> returns the agent's new current state, a new object of
  the store. Looked up by name, a field given in \<open>kwargs\<close> has the given value and every
  other field has the value it had in the prior state; \<^verbatim>\<open>get_state\<close> reports that object.
  On a freshly constructed agent, \<^verbatim>\<open>update_state(status="busy", current_task="T1")\<close> makes
  \<^verbatim>\<open>get_state\<close> report these two values and the defaults of the three other fields.
\<close>

theorem update_state_overrides_given_fields:
  assumes "wf_machine m" and "distinct (map fst kwargs)"
    and "update_state kwargs m = (res, m')"
  shows "res = Inr (state (self m'))
       \<and> state (self m') = length (store m)
       \<and> length (store m') = Suc (length (store m))
       \<and> (\<forall>k. map_of (store m' ! state (self m')) k
               = (case map_of kwargs k of
                    Some v \<Rightarrow> Some v
                  | None \<Rightarrow> map_of (store m ! state (self m)) k))
       \<and> fst (get_state m') = Inr (model_dump (store m' ! state (self m')))
       \<and> fst (get_state (snd (update_state
                 [(''status'', PyStr ''busy''), (''current_task'', PyStr ''T1'')]
                 (UniversalAgent_init cls aid rl mdl m0))))
           = Inr [(''status'', PyStr ''busy''), (''current_task'', PyStr ''T1''),
                  (''resource_utilization'', PyDict []), (''dependencies'', PyList []),
                  (''performance_metrics'', PyDict [])]"
proof -
  from assms(3) have s: "store m' = store m @ [model_copy (store m ! state (self m)) kwargs]"
    and a: "self m' = (self m)\<lparr>state := length (store m)\<rparr>"
    and r: "res = Inr (length (store m))"
    using update_state_store[of kwargs m] update_state_self[of kwargs m]
    by (simp_all add: update_state_unfold)
  from s a r map_of_model_copy[OF assms(2)] show ?thesis
    by (simp add: update_state_fresh_agent) (simp add: get_state_def)
qed


lemma compliance_officer_wf: "wf_machine compliance_officer"
  unfolding compliance_officer_def by (rule init_wf)

text \<open>Witness for C4: the state of a new agent after \<^verbatim>\<open>update_state(status=Status.busy)\<close>.\<close>

theorem update_state_keeps_prior_state_witness:
  "wf_machine compliance_officer
   \<and> store (snd (update_state [(''status'', PyStatus Status_busy)] compliance_officer)) ! 0
       = AgentState_default
   \<and> state (self (snd (update_state [(''status'', PyStatus Status_busy)] compliance_officer)))
       \<noteq> 0"
proof -
  let ?kw = "[(''status'', PyStatus Status_busy)]"
  have e: "update_state ?kw compliance_officer
             = (fst (update_state ?kw compliance_officer),
                snd (update_state ?kw compliance_officer))"
    by simp
  from update_state_keeps_prior_state[OF compliance_officer_wf e] compliance_officer_wf
  show ?thesis by simp
qed

text \<open>Witness for C5: \<^verbatim>\<open>update_state(status="busy", current_task="T1")\<close>.\<close>

theorem update_state_overrides_given_fields_witness:
  "wf_machine compliance_officer
   \<and> distinct (map fst [(''status'', PyStr ''busy''), (''current_task'', PyStr ''T1'')])
   \<and> fst (update_state [(''status'', PyStr ''busy''), (''current_task'', PyStr ''T1'')]
            compliance_officer) = Inr 1
   \<and> map_of (store (snd (update_state
                 [(''status'', PyStr ''busy''), (''current_task'', PyStr ''T1'')]
                 compliance_officer)) ! 1) ''status'' = Some (PyStr ''busy'')
   \<and> map_of (store (snd (update_state
                 [(''status'', PyStr ''busy''), (''current_task'', PyStr ''T1'')]
                 compliance_officer)) ! 1) ''dependencies'' = Some (PyList [])"
proof -
  let ?kw = "[(''status'', PyStr ''busy''), (''current_task'', PyStr ''T1'')]"
  have d: "distinct (map fst ?kw)" by simp
  have e: "update_state ?kw compliance_officer
             = (fst (update_state ?kw compliance_officer),
                snd (update_state ?kw compliance_officer))"
    by simp
  let ?m' = "snd (update_state ?kw compliance_officer)"
  note inst = update_state_overrides_given_fields[OF compliance_officer_wf d e,
      where cls = "[]" and aid = "[]" and rl = "[]" and mdl = "[]" and ?m0.0 = process_start]
  from inst have a: "fst (update_state ?kw compliance_officer) = Inr (state (self ?m'))"
    by (rule conjunct1)
  from inst have b: "state (self ?m') = length (store compliance_officer)"
    by (rule conjunct2[THEN conjunct1])
  from inst have c: "\<forall>k. map_of (store ?m' ! state (self ?m')) k
         = (case map_of ?kw k of
              Some v \<Rightarrow> Some v
            | None \<Rightarrow> map_of (store compliance_officer ! state (self compliance_officer)) k)"
    by (rule conjunct2[THEN conjunct2, THEN conjunct2, THEN conjunct1])
  from b have b1: "state (self ?m') = 1" by simp
  from c b1 have c1: "map_of (store ?m' ! 1) ''status'' = Some (PyStr ''busy'')"
    by simp
  from c[rule_format, of "''dependencies''"] b1
  have c2: "map_of (store ?m' ! 1) ''dependencies'' = Some (PyList [])"
    by (simp add: AgentState_default_def)
  from a b1 c1 c2 compliance_officer_wf d show ?thesis by simp
qed

text \<open>An instance of C10: \<^verbatim>\<open>update_state(status="bogus")\<close> on a new agent.\<close>

lemma update_state_bogus_status:
  "fst (get_state (snd (update_state [(''status'', PyStr ''bogus'')] compliance_officer)))
     = Inr [(''status'', PyStr ''bogus''), (''current_task'', PyNone),
            (''resource_utilization'', PyDict []), (''dependencies'', PyList []),
            (''performance_metrics'', PyDict [])]"
  by (simp add: get_state_after_update model_copy_def model_dump_def AgentState_default_def
      AgentState_fields_def)

section \<open>Properties of the introspection\<close>

lemma dir_doc: "py_dir documentation_agent =
  [''__init__'', ''agent_id'', ''as_adk_agent'', ''generate_agents_overview'',
   ''generate_comprehensive_overview'', ''get_gcp_api_documentation_info'', ''get_state'',
   ''logger'', ''model'', ''role'', ''send_message'', ''state'', ''summarize_action_logs'',
   ''tool_methods'', ''update_state'']"
  by (simp add: py_dir_def documentation_agent_def instance_attributes_def
      DocumentationAgent_class_def UniversalAgent_class_def data_attribute_def plain_method_def
      tool_method_def less_char_def less_eq_char_def)


lemma py_dir_set: "set (py_dir ns) = fst ` set ns"
  by (simp add: py_dir_def)

lemma py_dir_sorted: "sorted (py_dir ns)"
  by (simp add: py_dir_def)

lemma py_dir_distinct: "distinct (py_dir ns)"
  by (simp add: py_dir_def)

lemma scan_attrs_filter:
  "set attrs \<subseteq> fst ` set ns \<Longrightarrow>
   scan_attrs ns attrs methods
     = Inr (methods @ map (\<lambda>a. the (map_of ns a)) (filter (is_tool_name ns) attrs))"
proof (induction attrs arbitrary: methods)
  case Nil
  then show ?case by simp
next
  case (Cons attr rest)
  from Cons.prems have "attr \<in> fst ` set ns" by simp
  then obtain candidate where c: "map_of ns attr = Some candidate"
    by (metis map_of_eq_None_iff not_None_eq)
  from Cons.prems have rest: "set rest \<subseteq> fst ` set ns" by simp
  show ?case
    using c Cons.IH[OF rest] by (simp add: is_tool_name_def py_getattr_def)
qed

lemma tool_methods_filter:
  "tool_methods ns
     = Inr (map (\<lambda>a. the (map_of ns a)) (filter (is_tool_name ns) (py_dir ns)))"
  using scan_attrs_filter[of "py_dir ns" ns "[]"] by (simp add: tool_methods_def py_dir_set)


lemma is_tool_name_member: "is_tool_name ns a \<Longrightarrow> a \<in> fst ` set ns"
proof -
  assume "is_tool_name ns a"
  then have "map_of ns a \<noteq> None" by (auto simp: is_tool_name_def split: option.splits)
  then show ?thesis by (simp add: map_of_eq_None_iff)
qed

lemma tool_names_eq: "set (filter (is_tool_name ns) (py_dir ns)) = {a. is_tool_name ns a}"
  using is_tool_name_member[of ns] by (auto simp: py_dir_set)


text \<open>
  C7, as amended. The list follows the order of \<^verbatim>\<open>dir\<close>: the tools appear in ascending
  order of the names under which they are found, each name once. Being a function of the
  attributes alone, the list is the same at every call.
\<close>

theorem tool_methods_sorted_by_name:
  "\<exists>names. tool_methods ns = Inr (map (\<lambda>a. the (map_of ns a)) names)
          \<and> sorted names \<and> distinct names \<and> set names = {a. is_tool_name ns a}"
proof -
  let ?names = "filter (is_tool_name ns) (py_dir ns)"
  have "sorted ?names" by (simp add: py_dir_sorted sorted_wrt_filter)
  moreover have "distinct ?names" by (simp add: py_dir_distinct)
  ultimately show ?thesis
    using tool_names_eq[of ns] tool_methods_filter[of ns] by blast
qed

lemma tool_methods_documentation_agent:
  "tool_methods documentation_agent =
     Inr [snd (tool_method ''DocumentationAgent'' ''generate_agents_overview''),
          snd (tool_method ''DocumentationAgent'' ''generate_comprehensive_overview''),
          snd (tool_method ''DocumentationAgent'' ''get_gcp_api_documentation_info''),
          snd (tool_method ''DocumentationAgent'' ''summarize_action_logs'')]"
  unfolding tool_methods_def dir_doc
  by (simp add: documentation_agent_def instance_attributes_def
      DocumentationAgent_class_def UniversalAgent_class_def data_attribute_def plain_method_def
      tool_method_def py_getattr_def)

text \<open>
  C7 as stated fails on \<^verbatim>\<open>DocumentationAgent\<close>: the class declares
  \<^verbatim>\<open>summarize_action_logs\<close> second and \<^verbatim>\<open>generate_comprehensive_overview\<close> last; the scan
  returns them fourth and second.
\<close>

theorem declaration_order_counterexample:
  "tool_methods documentation_agent =
     Inr [snd (tool_method ''DocumentationAgent'' ''generate_agents_overview''),
          snd (tool_method ''DocumentationAgent'' ''generate_comprehensive_overview''),
          snd (tool_method ''DocumentationAgent'' ''get_gcp_api_documentation_info''),
          snd (tool_method ''DocumentationAgent'' ''summarize_action_logs'')]
   \<and> map snd (filter (\<lambda>(n, c). tool_flag c) DocumentationAgent_class) =
         [snd (tool_method ''DocumentationAgent'' ''generate_agents_overview''),
          snd (tool_method ''DocumentationAgent'' ''summarize_action_logs''),
          snd (tool_method ''DocumentationAgent'' ''get_gcp_api_documentation_info''),
          snd (tool_method ''DocumentationAgent'' ''generate_comprehensive_overview'')]
   \<and> tool_methods documentation_agent
       \<noteq> Inr (map snd (filter (\<lambda>(n, c). tool_flag c) DocumentationAgent_class))"
  unfolding tool_methods_documentation_agent
  by (simp add: DocumentationAgent_class_def plain_method_def tool_method_def)

lemma dir_universal: "py_dir universal_agent =
  [''__init__'', ''agent_id'', ''as_adk_agent'', ''get_state'',
   ''logger'', ''model'', ''role'', ''send_message'', ''state'',
   ''tool_methods'', ''update_state'']"
  by (simp add: py_dir_def universal_agent_def instance_attributes_def
      UniversalAgent_class_def data_attribute_def plain_method_def less_char_def less_eq_char_def)



section \<open>Properties of \<^verbatim>\<open>send_message\<close>\<close>

text \<open>
  C9 fails on a payload that \<^verbatim>\<open>json.dumps\<close> cannot serialise:
  \<^verbatim>\<open>send_message("ops-001", MessageType.request, {"due": datetime(2025, 1, 1)})\<close> builds
  the message, raises \<^verbatim>\<open>TypeError\<close> while the arguments of \<^verbatim>\<open>logger.info\<close> are evaluated,
  and returns no message.
\<close>

theorem send_message_unserializable_payload:
  "fst (send_message ''ops-001'' MessageType_request due_payload None None None
          compliance_officer)
     = Inl (TypeError ''Object of type datetime is not JSON serializable'')"
  by (simp add: send_message_def uuid4_def due_payload_def Let_def)

text \<open>
  With a payload that \<^verbatim>\<open>json.dumps\<close> serialises, the message is returned with the fields
  of the call and the defaults of the signature; the agent, the store and the action log
  do not change.
\<close>

lemma length_hex_pad [simp]: "length (hex_pad w n) = w"
  by (induction w arbitrary: n) auto

lemma length_uuid_str: "length (uuid_str u) = 36"
  by (simp add: uuid_str_def Let_def)

lemma send_message_returns:
  assumes "json_dumps (PyDict pl) = Inr js"
  shows "\<exists>mid m1. send_message rcpt mtype pl prio rr dl m =
           (Inr \<lparr>message_id = mid, sender = agent_id (self m), recipient = rcpt,
                  message_type = mtype,
                  priority = (case prio of None \<Rightarrow> Priority_medium | Some p \<Rightarrow> p),
                  payload = pl, timestamp = isoformat (now m),
                  requires_response = (case rr of None \<Rightarrow> False | Some b \<Rightarrow> b),
                  deadline = dl\<rparr>, m1)
          \<and> mid = uuid_str (uuid4_int (word_of_nat (urandom m (draws m))))
          \<and> length mid = 36
          \<and> self m1 = self m \<and> store m1 = store m \<and> action_log m1 = action_log m
          \<and> draws m1 = Suc (draws m)"
  using assms
  by (simp add: send_message_def uuid4_def Let_def length_uuid_str logger_call_def)

text \<open>
  The text of a UUID determines its 128 bits, so two calls give two different ids as soon
  as the random values drawn differ outside the six bits that \<^verbatim>\<open>uuid4\<close> overwrites.
\<close>

lemma hex_char_inj: "a < 16 \<Longrightarrow> b < 16 \<Longrightarrow> hex_char a = hex_char b \<Longrightarrow> a = b"
proof -
  assume "a < 16" "b < 16" "hex_char a = hex_char b"
  moreover have "distinct ''0123456789abcdef''" by simp
  ultimately show "a = b" by (simp add: hex_char_def nth_eq_iff_index_eq)
qed

lemma hex_pad_inj:
  "hex_pad w n = hex_pad w n' \<Longrightarrow> n mod 16 ^ w = n' mod 16 ^ w"
proof (induction w arbitrary: n n')
  case 0
  then show ?case by simp
next
  case (Suc w)
  from Suc.prems have h: "hex_pad w (n div 16) = hex_pad w (n' div 16)"
    and c: "hex_char (n mod 16) = hex_char (n' mod 16)" by simp_all
  from c have lo: "n mod 16 = n' mod 16" by (intro hex_char_inj) simp_all
  from Suc.IH[OF h] have hi: "n div 16 mod 16 ^ w = n' div 16 mod 16 ^ w" .
  have e: "\<And>k::nat. k mod 16 ^ Suc w = 16 * (k div 16 mod 16 ^ w) + k mod 16"
  proof -
    fix k :: nat
    have "k mod (16 * 16 ^ w) = 16 * (k div 16 mod 16 ^ w) + k mod 16"
      by (rule mod_mult2_eq)
    then show "k mod 16 ^ Suc w = 16 * (k div 16 mod 16 ^ w) + k mod 16"
      by (simp only: power_Suc)
  qed
  show ?case by (simp only: e[of n] e[of n'] lo hi)
qed

lemma uuid_str_inj: "uuid_str u = uuid_str u' \<Longrightarrow> u = u'"
proof -
  assume e: "uuid_str u = uuid_str u'"
  let ?h = "hex_pad 32 (unat u)" and ?h' = "hex_pad 32 (unat u')"
  from e have p: "take 8 ?h = take 8 ?h'" "take 4 (drop 8 ?h) = take 4 (drop 8 ?h')"
    "take 4 (drop 12 ?h) = take 4 (drop 12 ?h')" "take 4 (drop 16 ?h) = take 4 (drop 16 ?h')"
    "drop 20 ?h = drop 20 ?h'"
    by (simp_all add: uuid_str_def Let_def)
  have split: "\<And>h::string. h = take 8 h @ take 4 (drop 8 h) @ take 4 (drop 12 h)
                 @ take 4 (drop 16 h) @ drop 20 h"
  proof -
    fix h :: string
    have a: "take 4 (drop 16 h) @ drop 20 h = drop 16 h"
      using append_take_drop_id[of 4 "drop 16 h"] by simp
    have b: "take 4 (drop 12 h) @ drop 16 h = drop 12 h"
      using append_take_drop_id[of 4 "drop 12 h"] by simp
    have c: "take 4 (drop 8 h) @ drop 12 h = drop 8 h"
      using append_take_drop_id[of 4 "drop 8 h"] by simp
    have d: "take 8 h @ drop 8 h = h" by (rule append_take_drop_id)
    show "h = take 8 h @ take 4 (drop 8 h) @ take 4 (drop 12 h)
                 @ take 4 (drop 16 h) @ drop 20 h"
      by (simp only: a b c d)
  qed
  have "?h = ?h'" by (subst split[of ?h], subst split[of ?h']) (simp only: p)
  then have "unat u mod 16 ^ 32 = unat u' mod 16 ^ 32" by (rule hex_pad_inj)
  moreover have "(16::nat) ^ 32 = 2 ^ LENGTH(128)" by simp
  moreover have "unat u < 2 ^ LENGTH(128)" "unat u' < 2 ^ LENGTH(128)"
    by (rule unsigned_less)+
  ultimately have "unat u = unat u'" by (simp only: mod_less)
  then show "u = u'" by (simp only: word_unat_eq_iff)
qed


lemma send_message_id:
  assumes "send_message rcpt mtype pl prio rr dl m = (Inr message, m1)"
  shows "message_id message = uuid_str (uuid4_int (word_of_nat (urandom m (draws m))))
       \<and> urandom m1 = urandom m \<and> draws m1 = Suc (draws m)"
  using assms
  by (auto simp: send_message_def uuid4_def Let_def logger_call_def split: sum.splits)

lemma send_message_distinct_ids:
  assumes "send_message rcpt mtype pl prio rr dl m = (Inr message, m1)"
    and "send_message rcpt' mtype' pl' prio' rr' dl' m1 = (Inr message', m2)"
    and "uuid4_int (word_of_nat (urandom m (draws m)))
           \<noteq> uuid4_int (word_of_nat (urandom m (Suc (draws m))))"
  shows "message_id message \<noteq> message_id message'"
proof
  assume e: "message_id message = message_id message'"
  from send_message_id[OF assms(1)]
  have a: "message_id message = uuid_str (uuid4_int (word_of_nat (urandom m (draws m))))"
    and u: "urandom m1 = urandom m" and d: "draws m1 = Suc (draws m)"
    by blast+
  from send_message_id[OF assms(2)]
  have "message_id message' = uuid_str (uuid4_int (word_of_nat (urandom m1 (draws m1))))"
    by blast
  then have b: "message_id message'
                  = uuid_str (uuid4_int (word_of_nat (urandom m (Suc (draws m)))))"
    by (simp only: u d)
  from a b e
  have "uuid_str (uuid4_int (word_of_nat (urandom m (draws m))))
          = uuid_str (uuid4_int (word_of_nat (urandom m (Suc (draws m)))))"
    by (simp only:)
  then have "uuid4_int (word_of_nat (urandom m (draws m)))
               = uuid4_int (word_of_nat (urandom m (Suc (draws m))))"
    by (rule uuid_str_inj)
  with assms(3) show False by contradiction
qed

text \<open>
  A call with a payload that serialises, on the agent \<open>compliance_officer\<close>, whose random
  source hands out \<^verbatim>\<open>0x0123456789abcdef0123456789abcdef\<close> first.
\<close>

lemma hex_pad_numeral:
  "hex_pad (numeral k) n = hex_pad (pred_numeral k) (n div 16) @ [hex_char (n mod 16)]"
proof -
  have "hex_pad (Suc (pred_numeral k)) n
          = hex_pad (pred_numeral k) (n div 16) @ [hex_char (n mod 16)]"
    by (rule hex_pad.simps)
  then show ?thesis by (simp only: numeral_eq_Suc[symmetric])
qed

lemma uuid4_int_example:
  "uuid4_int 0x0123456789abcdef0123456789abcdef = 0x0123456789ab4def8123456789abcdef"
  by (simp add: uuid4_int_def)

lemma uuid_str_example:
  "uuid_str 0x0123456789ab4def8123456789abcdef = ''01234567-89ab-4def-8123-456789abcdef''"
  by (simp add: uuid_str_def hex_pad_numeral hex_char_def Let_def)

lemma send_message_example:
  "fst (send_message ''ops-001'' MessageType_request [(''ticket'', PyInt 7)] None None None
          compliance_officer)
     = Inr \<lparr>message_id = ''01234567-89ab-4def-8123-456789abcdef'',
            sender = ''compliance-officer-001'', recipient = ''ops-001'',
            message_type = MessageType_request, priority = Priority_medium,
            payload = [(''ticket'', PyInt 7)], timestamp = ''2025-08-17T09:30:05.120034'',
            requires_response = False, deadline = None\<rparr>"
proof -
  have u: "urandom compliance_officer (draws compliance_officer)
             = 0x0123456789abcdef0123456789abcdef"
    by (simp add: compliance_officer_unfold process_start_def)
  have j: "json_dumps (PyDict [(''ticket'', PyInt 7)])
             = Inr (''{'' @ json_string ''ticket'' @ '': 7}'')"
    by (simp add: show_int_def show_nat.simps[of 7] digit_char_def)
  show ?thesis
    by (simp add: send_message_def uuid4_def Let_def u j uuid4_int_example uuid_str_example)
qed

end
